theory Spec2Isabelle
  imports Main "HOL-Library.Sublist"
begin

section \<open>JavaScript values and strings\<close>

text \<open>
  The validators read JSON files, so a record is a parsed JSON value. A string is a
  \<^typ>\<open>string\<close>: the ASCII range is modelled exactly, and a source character outside it
  (the marks of the log lines) is written as the bytes of its UTF-8 encoding, which is
  also what the log files hold. \<open>toLowerCase\<close> and the character classes of the regular
  expressions act on ASCII letters, digits and white space. JSON numbers are integers
  (the only number the validators read, \<open>recordCount\<close>, is rejected unless it is one).
  An object is the list of its own properties, each key once; \<open>undefined\<close> is \<open>None\<close>.
\<close>

datatype json =
    JNull
  | JBool bool
  | JNum int
  | JStr string
  | JArr "json list"
  | JObj "(string \<times> json) list"

text \<open>An exception: its kind and its \<open>message\<close>.\<close>

datatype error = TypeError string | SyntaxError string | RangeError string | FsError string

fun message :: "error \<Rightarrow> string" where
  "message (TypeError m) = m"
| "message (SyntaxError m) = m"
| "message (RangeError m) = m"
| "message (FsError m) = m"

definition bindE :: "error + 'a \<Rightarrow> ('a \<Rightarrow> error + 'b) \<Rightarrow> error + 'b" where
  "bindE m f = (case m of Inl e \<Rightarrow> Inl e | Inr x \<Rightarrow> f x)"

text \<open>Property access \<open>v.k\<close> on a value that is neither \<open>null\<close> nor \<open>undefined\<close>.\<close>

fun getprop :: "json \<Rightarrow> string \<Rightarrow> json option" where
  "getprop (JObj fs) k = map_of fs k"
| "getprop v k = None"

text \<open>Truthiness of a value read from a property.\<close>

fun truthy :: "json option \<Rightarrow> bool" where
  "truthy None = False"
| "truthy (Some JNull) = False"
| "truthy (Some (JBool b)) = b"
| "truthy (Some (JNum n)) = (n \<noteq> 0)"
| "truthy (Some (JStr s)) = (s \<noteq> [])"
| "truthy (Some (JArr xs)) = True"
| "truthy (Some (JObj fs)) = True"

fun digit_char :: "nat \<Rightarrow> char" where
  "digit_char n = char_of (48 + n mod 10)"

function nat_str :: "nat \<Rightarrow> string" where
  "nat_str n = (if n < 10 then [digit_char n] else nat_str (n div 10) @ [digit_char n])"
  by pat_completeness auto
termination
  by (relation "measure id") auto

declare nat_str.simps [simp del]

definition int_str :: "int \<Rightarrow> string" where
  "int_str i = (if i < 0 then CHR ''-'' # nat_str (nat (- i)) else nat_str (nat i))"

fun join :: "string \<Rightarrow> string list \<Rightarrow> string" where
  "join sep [] = []"
| "join sep [x] = x"
| "join sep (x # y # ys) = x @ sep @ join sep (y # ys)"

text \<open>String conversion, as a template literal and \<open>RegExp.test\<close> apply it.\<close>

fun to_string :: "json \<Rightarrow> string" where
  "to_string JNull = ''null''"
| "to_string (JBool b) = (if b then ''true'' else ''false'')"
| "to_string (JNum n) = int_str n"
| "to_string (JStr s) = s"
| "to_string (JArr xs) =
     join '','' (map (\<lambda>x. case x of JNull \<Rightarrow> [] | _ \<Rightarrow> to_string x) xs)"
| "to_string (JObj fs) = ''[object Object]''"

definition template :: "json option \<Rightarrow> string" where
  "template v = (case v of None \<Rightarrow> ''undefined'' | Some x \<Rightarrow> to_string x)"

definition is_upper :: "char \<Rightarrow> bool" where
  "is_upper c = ((65::nat) \<le> of_char c \<and> of_char c \<le> (90::nat))"

definition is_lower :: "char \<Rightarrow> bool" where
  "is_lower c = ((97::nat) \<le> of_char c \<and> of_char c \<le> (122::nat))"

definition is_digit :: "char \<Rightarrow> bool" where
  "is_digit c = ((48::nat) \<le> of_char c \<and> of_char c \<le> (57::nat))"

definition is_space :: "char \<Rightarrow> bool" where
  "is_space c = (of_char c \<in> {9, 10, 11, 12, 13, 32 :: nat})"

definition lower_char :: "char \<Rightarrow> char" where
  "lower_char c = (if is_upper c then char_of (of_char c + (32::nat)) else c)"

definition toLowerCase :: "string \<Rightarrow> string" where
  "toLowerCase s = map lower_char s"

fun str_includes :: "string \<Rightarrow> string \<Rightarrow> bool" where
  "str_includes [] sub = (sub = [])"
| "str_includes (c # cs) sub = (prefix sub (c # cs) \<or> str_includes cs sub)"

definition endsWith :: "string \<Rightarrow> string \<Rightarrow> bool" where
  "endsWith s suf = (length suf \<le> length s \<and> drop (length s - length suf) s = suf)"

definition trim :: "string \<Rightarrow> string" where
  "trim s = rev (dropWhile is_space (rev (dropWhile is_space s)))"

fun split_on :: "char \<Rightarrow> string \<Rightarrow> string list" where
  "split_on d [] = [[]]"
| "split_on d (c # cs) =
     (if c = d then [] # split_on d cs
      else (case split_on d cs of [] \<Rightarrow> [[c]] | x # xs \<Rightarrow> (c # x) # xs))"

section \<open>The file system\<close>

text \<open>
  A path is the list of its segments from the root of the file system, so that
  \<open>path.join\<close> of two paths is their concatenation. A directory lists its entries in the
  order \<open>readdirSync\<close> returns them.
\<close>

datatype fsnode = File string | Dir "(string \<times> fsnode) list"

type_synonym path = "string list"

fun lookup :: "fsnode \<Rightarrow> path \<Rightarrow> fsnode option" where
  "lookup n [] = Some n"
| "lookup (File c) (s # ss) = None"
| "lookup (Dir es) (s # ss) = (case map_of es s of None \<Rightarrow> None | Some n \<Rightarrow> lookup n ss)"

definition existsSync :: "fsnode \<Rightarrow> path \<Rightarrow> bool" where
  "existsSync root p = (lookup root p \<noteq> None)"

definition readFileSync :: "fsnode \<Rightarrow> path \<Rightarrow> error + string" where
  "readFileSync root p =
     (case lookup root p of
        None \<Rightarrow> Inl (FsError ''ENOENT: no such file or directory'')
      | Some (Dir es) \<Rightarrow> Inl (FsError ''EISDIR: illegal operation on a directory'')
      | Some (File c) \<Rightarrow> Inr c)"

definition readdirSync :: "fsnode \<Rightarrow> path \<Rightarrow> error + (string \<times> fsnode) list" where
  "readdirSync root p =
     (case lookup root p of
        None \<Rightarrow> Inl (FsError ''ENOENT: no such file or directory'')
      | Some (File c) \<Rightarrow> Inl (FsError ''ENOTDIR: not a directory'')
      | Some (Dir es) \<Rightarrow> Inr es)"

fun isDirectory :: "fsnode \<Rightarrow> bool" where
  "isDirectory (Dir es) = True"
| "isDirectory (File c) = False"

definition path_str :: "path \<Rightarrow> string" where
  "path_str p = concat (map (\<lambda>s. CHR ''/'' # s) p)"

section \<open>The report aggregator\<close>

record validation_result =
  status :: string
  details :: "string list"
  summary :: string

record file_count =
  total :: nat
  contacts :: nat
  metadataCount :: nat

record validation_results =
  cdmSchema :: validation_result
  businessRules :: validation_result
  metadataResult :: validation_result
  fileCount :: file_count

definition cross_mark :: string where
  "cross_mark = [CHR 0xE2, CHR 0x9D, CHR 0x8C]"

definition check_mark :: string where
  "check_mark = [CHR 0xE2, CHR 0x9C, CHR 0x85]"

definition json_names :: "(string \<times> fsnode) list \<Rightarrow> string list" where
  "json_names es = filter (\<lambda>file. endsWith file ''.json'') (map fst es)"

definition countFiles :: "fsnode \<Rightarrow> path \<Rightarrow> error + file_count" where
  "countFiles root repoRoot =
     (let contactsDir = repoRoot @ [''data'', ''contacts''];
          metadataDir = repoRoot @ [''metadata'', ''submissions'']
      in bindE (if existsSync root (repoRoot @ contactsDir)
                then bindE (readdirSync root contactsDir) (\<lambda>es. Inr (length (json_names es)))
                else Inr 0)
           (\<lambda>c. bindE (if existsSync root metadataDir
                        then bindE (readdirSync root metadataDir) (\<lambda>es. Inr (length (json_names es)))
                        else Inr 0)
                  (\<lambda>m. Inr \<lparr>total = c + m, contacts = c, metadataCount = m\<rparr>)))"

definition parseValidationOutput :: "string \<Rightarrow> validation_result" where
  "parseValidationOutput content =
     (let lines = split_on CHR ''\<newline>'' content;
          errorLines = filter (\<lambda>line. str_includes line cross_mark \<or> str_includes line ''Error:''
                                \<or> str_includes line ''violation'') lines;
          summaryLines = filter (\<lambda>line. str_includes line ''Total files:''
                                \<or> str_includes line ''Valid files:''
                                \<or> str_includes line ''Invalid files:'') lines
      in \<lparr>status = (if str_includes content ''validation checks passed!'' then ''passed''
                    else if str_includes content ''validation failed!'' then ''failed''
                    else ''unknown''),
          details = map trim errorLines,
          summary = join ''\<newline>'' summaryLines\<rparr>)"

definition unknown_result :: validation_result where
  "unknown_result = \<lparr>status = ''unknown'', details = [], summary = []\<rparr>"

definition readValidationOutput :: "fsnode \<Rightarrow> path \<Rightarrow> string \<Rightarrow> error + validation_result" where
  "readValidationOutput root repoRoot file =
     (let filePath = repoRoot @ [file]
      in if existsSync root filePath
         then bindE (readFileSync root filePath) (\<lambda>content. Inr (parseValidationOutput content))
         else Inr unknown_result)"

definition generateReport :: "fsnode \<Rightarrow> path \<Rightarrow> error + validation_results" where
  "generateReport root repoRoot =
     bindE (countFiles root repoRoot) (\<lambda>fc.
     bindE (readValidationOutput root repoRoot ''cdm-validation.log'') (\<lambda>r1.
     bindE (readValidationOutput root repoRoot ''business-rules-validation.log'') (\<lambda>r2.
     bindE (readValidationOutput root repoRoot ''metadata-validation.log'') (\<lambda>r3.
       Inr \<lparr>cdmSchema = r1, businessRules = r2, metadataResult = r3, fileCount = fc\<rparr>))))"

text \<open>
  \<open>generateReport\<close> also writes the report in two files; of their text the model keeps
  the section on the overall status. \<open>Object.values(validationResults)\<close> holds the
  three results and \<open>fileCount\<close>, whose \<open>status\<close> is \<open>undefined\<close> and which the
  filter drops.
\<close>

definition allPassed_report :: "validation_results \<Rightarrow> bool" where
  "allPassed_report vr =
     list_all (\<lambda>s. s = Some ''passed'')
       (filter (\<lambda>s. s \<noteq> None)
          [Some (status (cdmSchema vr)), Some (status (businessRules vr)),
           Some (status (metadataResult vr)), None])"

definition overall_status :: "validation_results \<Rightarrow> string" where
  "overall_status vr =
     ''## Overall Status\<newline>\<newline>'' @
     (if allPassed_report vr
      then check_mark @ '' **PASSED** - All validation checks successful\<newline>\<newline>''
      else cross_mark @ '' **FAILED** - One or more validation checks failed\<newline>\<newline>'')"



section \<open>Regular expressions\<close>

text \<open>
  The patterns of the scripts are values of \<open>rx\<close>. \<open>rests r s\<close> lists what is left of
  \<open>s\<close> after each way of matching \<open>r\<close> at its start, so that a pattern anchored by
  \<open>^\<close> and \<open>$\<close> accepts \<open>s\<close> when nothing can be left, and an unanchored one when it
  matches at the start of some suffix.
\<close>

datatype rx = Eps | Atom "char \<Rightarrow> bool" | Seq rx rx | Alt rx rx | Opt rx | Star rx

function rests :: "rx \<Rightarrow> string \<Rightarrow> string list" where
  "rests Eps s = [s]"
| "rests (Atom p) s = (case s of [] \<Rightarrow> [] | c # cs \<Rightarrow> if p c then [cs] else [])"
| "rests (Seq a b) s = concat (map (rests b) (rests a s))"
| "rests (Alt a b) s = rests a s @ rests b s"
| "rests (Opt a) s = rests a s @ [s]"
| "rests (Star a) s =
     s # concat (map (rests (Star a)) (filter (\<lambda>t. length t < length s) (rests a s)))"
  by pat_completeness auto
termination
  by (relation "measures [\<lambda>(r, s). size r, \<lambda>(r, s). length s]") auto

definition rx_full :: "rx \<Rightarrow> string \<Rightarrow> bool" where
  "rx_full r s = ([] \<in> set (rests r s))"

fun rx_search :: "rx \<Rightarrow> string \<Rightarrow> bool" where
  "rx_search r [] = (rests r [] \<noteq> [])"
| "rx_search r (c # cs) = (rests r (c # cs) \<noteq> [] \<or> rx_search r cs)"

definition is_word :: "char \<Rightarrow> bool" where
  "is_word c = (is_upper c \<or> is_lower c \<or> is_digit c \<or> c = CHR ''_'')"

text \<open>
  \<open>\<bsol>b r \<bsol>b\<close> for an \<open>r\<close> that starts and ends with a word character: the match
  neither follows nor precedes a word character.
\<close>

fun rx_search_word :: "rx \<Rightarrow> bool \<Rightarrow> string \<Rightarrow> bool" where
  "rx_search_word r prev [] = False"
| "rx_search_word r prev (c # cs) =
     ((\<not> prev \<and> list_ex (\<lambda>t. case t of [] \<Rightarrow> True | d # ds \<Rightarrow> \<not> is_word d) (rests r (c # cs)))
      \<or> rx_search_word r (is_word c) cs)"

fun rep :: "nat \<Rightarrow> rx \<Rightarrow> rx" where
  "rep 0 r = Eps"
| "rep (Suc n) r = Seq r (rep n r)"

definition plus :: "rx \<Rightarrow> rx" where
  "plus r = Seq r (Star r)"

definition chr :: "char \<Rightarrow> rx" where
  "chr c = Atom (\<lambda>x. x = c)"

definition lit :: "string \<Rightarrow> rx" where
  "lit s = foldr (\<lambda>c r. Seq (chr c) r) s Eps"

text \<open>Under the flag \<open>i\<close> a letter matches in either case.\<close>

definition chr_i :: "char \<Rightarrow> rx" where
  "chr_i c = Atom (\<lambda>x. lower_char x = lower_char c)"

definition lit_i :: "string \<Rightarrow> rx" where
  "lit_i s = foldr (\<lambda>c r. Seq (chr_i c) r) s Eps"

definition digit :: rx where
  "digit = Atom is_digit"

section \<open>Dates\<close>

text \<open>
  A \<open>Date\<close> is its time value in milliseconds, \<open>None\<close> for \<open>NaN\<close>. Parsing a string is
  the runtime's (\<open>Date_parse\<close> below); \<open>toISOString\<close> is the fixed format of the language.
\<close>

definition civil_from_days :: "int \<Rightarrow> int \<times> int \<times> int" where
  "civil_from_days z =
     (let z1 = z + 719468;
          era = z1 div 146097;
          doe = z1 mod 146097;
          yoe = (doe - doe div 1460 + doe div 36524 - doe div 146096) div 365;
          doy = doe - (365 * yoe + yoe div 4 - yoe div 100);
          mp = (5 * doy + 2) div 153;
          d = doy - (153 * mp + 2) div 5 + 1;
          m = (if mp < 10 then mp + 3 else mp - 9);
          y = yoe + era * 400
      in (if m \<le> 2 then y + 1 else y, m, d))"

definition pad :: "nat \<Rightarrow> int \<Rightarrow> string" where
  "pad w n = (let ds = nat_str (nat n) in replicate (w - length ds) CHR ''0'' @ ds)"

definition year_str :: "int \<Rightarrow> string" where
  "year_str y =
     (if 0 \<le> y \<and> y \<le> 9999 then pad 4 y
      else if y < 0 then CHR ''-'' # pad 6 (- y)
      else CHR ''+'' # pad 6 y)"

definition toISOString :: "int option \<Rightarrow> error + string" where
  "toISOString date =
     (case date of
        None \<Rightarrow> Inl (RangeError ''Invalid time value'')
      | Some t \<Rightarrow>
          (case civil_from_days (t div 86400000) of (y, m, d) \<Rightarrow>
             Inr (year_str y @ ''-'' @ pad 2 m @ ''-'' @ pad 2 d @ ''T''
                  @ pad 2 (t div 3600000 mod 24) @ '':'' @ pad 2 (t div 60000 mod 60) @ '':''
                  @ pad 2 (t div 1000 mod 60) @ ''.'' @ pad 3 (t mod 1000) @ ''Z'')))"

text \<open>
  What the runtime supplies: the date parser, the clock, the JSON parser (the message of
  a \<open>SyntaxError\<close>, or the value) and the address syntax of the schema library's
  \<open>email()\<close> rule.
\<close>

record js_env =
  Date_parse :: "string \<Rightarrow> int option"
  Date_now :: int
  JSON_parse :: "string \<Rightarrow> string + json"
  Joi_email :: "string \<Rightarrow> bool"

definition timeClip :: "int \<Rightarrow> int option" where
  "timeClip t = (if \<bar>t\<bar> \<le> 8640000000000000 then Some t else None)"

text \<open>\<open>new Date(v)\<close>: a string is parsed, as is the string of an array or an object.\<close>

fun new_Date :: "js_env \<Rightarrow> json \<Rightarrow> int option" where
  "new_Date env (JStr s) = Date_parse env s"
| "new_Date env (JNum n) = timeClip n"
| "new_Date env (JBool b) = Some (if b then 1 else 0)"
| "new_Date env JNull = Some 0"
| "new_Date env v = Date_parse env (to_string v)"

section \<open>File discovery\<close>

text \<open>
  \<open>findDataFiles\<close> is written three times, once per validator (\<open>findMetadataFiles\<close> in
  the metadata script), with one body. \<open>repoRoot\<close> is \<open>path.resolve(__dirname, '..')\<close>.
  The function joins \<open>repoRoot\<close> and its argument, and its recursive call passes
  \<open>fullPath\<close>, which already starts with \<open>repoRoot\<close>. \<open>readdirSync\<close> throws on a path
  that is not a directory; nothing catches that.
\<close>

fun height :: "fsnode \<Rightarrow> nat" where
  "height (File c) = 0"
| "height (Dir es) = Suc (foldr max (map (\<lambda>e. height (snd e)) es) 0)"

fun collect :: "(error + path list) list \<Rightarrow> error + path list" where
  "collect [] = Inr []"
| "collect (x # xs) = bindE x (\<lambda>fs. bindE (collect xs) (\<lambda>gs. Inr (fs @ gs)))"

lemma height_map_of: "map_of es s = Some n \<Longrightarrow> height n < height (Dir es)"
  by (induction es) (auto split: if_splits simp: less_Suc_eq_le max.coboundedI2)

lemma lookup_height: "lookup root p = Some n \<Longrightarrow> length p + height n \<le> height root"
proof (induction root p rule: lookup.induct)
  case (3 es s ss)
  then obtain m where m: "map_of es s = Some m" and l: "lookup m ss = Some n"
    by (auto split: option.splits)
  from "3.IH" [OF m l] height_map_of [OF m] show ?case by simp
qed simp_all

function findDataFiles :: "fsnode \<Rightarrow> path \<Rightarrow> path \<Rightarrow> error + path list" where
  "findDataFiles root repoRoot dir =
     (case lookup root (repoRoot @ dir) of
        None \<Rightarrow> Inr []
      | Some (File c) \<Rightarrow> Inl (FsError ''ENOTDIR: not a directory'')
      | Some (Dir items) \<Rightarrow>
          collect (map (\<lambda>item.
              if isDirectory (snd item) then findDataFiles root repoRoot (repoRoot @ dir @ [fst item])
              else if endsWith (fst item) ''.json'' then Inr [repoRoot @ dir @ [fst item]]
              else Inr []) items))"
  by pat_completeness auto
termination
proof (relation "measure (\<lambda>(root, repoRoot, dir). Suc (height root) - length (repoRoot @ dir))")
  fix root :: fsnode and repoRoot dir :: path and x2 items item
  assume "lookup root (repoRoot @ dir) = Some x2" "x2 = Dir items"
  then have "length (repoRoot @ dir) \<le> height root"
    using lookup_height by fastforce
  then show "((root, repoRoot, repoRoot @ dir @ [fst item]), (root, repoRoot, dir))
      \<in> measure (\<lambda>(root, repoRoot, dir). Suc (height root) - length (repoRoot @ dir))"
    by simp
qed simp

declare findDataFiles.simps [simp del]

definition findMetadataFiles :: "fsnode \<Rightarrow> path \<Rightarrow> path \<Rightarrow> error + path list" where
  "findMetadataFiles = findDataFiles"

section \<open>The run of a validator\<close>

text \<open>
  A run ends with the log it wrote (\<open>None\<close> when an uncaught exception ended the process
  before any log), its exit code, and what validating each file printed.
\<close>

record run =
  logFile :: "string option"
  exitCode :: nat
  console :: "string list"

record result =
  isValid :: bool
  violations :: "string list"

definition push :: "string \<Rightarrow> result \<Rightarrow> result" where
  "push v r = \<lparr>isValid = False, violations = violations r @ [v]\<rparr>"

definition magnifier :: string where
  "magnifier = [CHR 0xF0, CHR 0x9F, CHR 0x94, CHR 0x8D]"

text \<open>The log of the three \<open>main\<close> functions, which differ in the title and its underline.\<close>

definition write_log :: "string \<Rightarrow> string \<Rightarrow> nat \<Rightarrow> nat \<Rightarrow> string list \<Rightarrow> bool \<Rightarrow> string" where
  "write_log title underline n valid lines ok =
     title @ ''\<newline>'' @ underline @ ''\<newline>''
     @ ''Total files: '' @ nat_str n @ ''\<newline>''
     @ ''Valid files: '' @ nat_str valid @ ''\<newline>''
     @ ''Invalid files: '' @ nat_str (n - valid) @ ''\<newline>''
     @ (if length lines > 0
        then ''\<newline>Details:\<newline>'' @ concat (map (\<lambda>line. line @ ''\<newline>'') lines)
        else [])
     @ (if ok then ''\<newline>All validation checks passed!\<newline>''
        else ''\<newline>validation failed!\<newline>'')"

text \<open>The loop over the files that were found: what it leaves in its four variables.\<close>

record tally =
  allValid :: bool
  validCount :: nat
  errorLines :: "string list"
  printed :: "string list"

definition tally0 :: tally where
  "tally0 = \<lparr>allValid = True, validCount = 0, errorLines = [], printed = []\<rparr>"

definition count_file :: "string \<Rightarrow> path \<Rightarrow> bool \<times> string list \<Rightarrow> tally \<Rightarrow> tally" where
  "count_file kind file res t =
     (if fst res
      then t\<lparr>validCount := validCount t + 1, printed := printed t @ snd res\<rparr>
      else t\<lparr>allValid := False,
             errorLines := errorLines t @ [kind @ path_str file],
             printed := printed t @ snd res\<rparr>)"

definition finish :: "string \<Rightarrow> string \<Rightarrow> nat \<Rightarrow> tally \<Rightarrow> run" where
  "finish title underline n t =
     \<lparr>logFile = Some (write_log title underline n (validCount t) (errorLines t) (allValid t)),
      exitCode = (if allValid t then 0 else 1),
      console = printed t\<rparr>"

definition crashed :: run where
  "crashed = \<lparr>logFile = None, exitCode = 1, console = []\<rparr>"

section \<open>The metadata validator\<close>

definition requiredFields :: "string list" where
  "requiredFields = [''submissionId'', ''processedAt'', ''gitBranch'', ''gitCommitMessage'']"

definition seqs :: "rx list \<Rightarrow> rx" where
  "seqs rs = foldr Seq rs Eps"

definition lower_or_digit :: rx where
  "lower_or_digit = Atom (\<lambda>c. is_lower c \<or> is_digit c)"

definition alnum :: rx where
  "alnum = Atom (\<lambda>c. is_lower c \<or> is_upper c \<or> is_digit c)"

definition lower :: rx where
  "lower = Atom is_lower"

definition submissionIdPattern :: rx where
  "submissionIdPattern = seqs [rep 13 digit, chr CHR ''-'', rep 9 lower_or_digit]"

definition branchPattern :: rx where
  "branchPattern =
     seqs [Alt (lit_i ''contact'') (Alt (lit_i ''feature'') (lit_i ''hotfix'')),
           chr CHR ''-'', rep 8 alnum,
           chr CHR ''-'', rep 4 digit, chr CHR ''-'', rep 2 digit, chr CHR ''-'', rep 2 digit,
           chr_i CHR ''t'', rep 2 digit, chr CHR ''-'', rep 2 digit, chr CHR ''-'', rep 2 digit,
           chr CHR ''-'', rep 3 digit, chr_i CHR ''z'']"

definition versionPattern :: rx where
  "versionPattern = seqs [plus digit, chr CHR ''.'', plus digit]"

definition namespacePattern :: rx where
  "namespacePattern =
     seqs [plus lower, Star (Seq (chr CHR ''.'') (plus lower)), chr CHR ''.'', plus lower]"

definition check_required :: "json \<Rightarrow> result \<Rightarrow> result" where
  "check_required metadata r =
     foldl (\<lambda>r field. if \<not> truthy (getprop metadata field)
                       then push (''Missing required metadata field: '' @ field) r else r)
       r requiredFields"

definition check_submissionId :: "json \<Rightarrow> result \<Rightarrow> result" where
  "check_submissionId metadata r =
     (let v = getprop metadata ''submissionId''
      in if truthy v \<and> \<not> rx_full submissionIdPattern (template v)
         then push (''Invalid submissionId format: '' @ template v) r else r)"

text \<open>
  \<open>toISOString\<close> is reached only for a valid date, so the \<open>catch\<close> of the source cannot
  run; it is kept as the branch of \<open>Inl\<close>. \<open>!==\<close> holds between a string and any value
  that is not that string.
\<close>

definition check_processedAt :: "js_env \<Rightarrow> json \<Rightarrow> result \<Rightarrow> result" where
  "check_processedAt env metadata r =
     (let v = getprop metadata ''processedAt''
      in if truthy v
         then (let date = new_Date env (the v)
               in case (if date = None then Inr True
                        else bindE (toISOString date) (\<lambda>s. Inr (Some (JStr s) \<noteq> v))) of
                    Inl e \<Rightarrow> push (''Error parsing processedAt timestamp: '' @ message e) r
                  | Inr bad \<Rightarrow>
                      (let r1 = (if bad then push (''Invalid processedAt timestamp: '' @ template v) r
                                 else r)
                       in if date \<noteq> None \<and> the date > Date_now env
                          then push ''processedAt timestamp cannot be in the future'' r1
                          else r1))
         else r)"

definition check_gitBranch :: "json \<Rightarrow> result \<Rightarrow> result" where
  "check_gitBranch metadata r =
     (let v = getprop metadata ''gitBranch''
      in if truthy v \<and> \<not> rx_full branchPattern (template v)
         then push (''Git branch does not follow naming convention: '' @ template v) r else r)"

definition check_version :: "json \<Rightarrow> result \<Rightarrow> result" where
  "check_version metadata r =
     (let v = getprop metadata ''version''
      in if truthy v \<and> \<not> rx_full versionPattern (template v)
         then push (''Invalid CDM schema version format: '' @ template v) r else r)"

definition check_namespace :: "json \<Rightarrow> result \<Rightarrow> result" where
  "check_namespace metadata r =
     (let v = getprop metadata ''namespace''
      in if truthy v \<and> \<not> rx_full namespacePattern (template v)
         then push (''Invalid CDM namespace format: '' @ template v) r else r)"

definition check_recordCount :: "json \<Rightarrow> result \<Rightarrow> result" where
  "check_recordCount metadata r =
     (case getprop metadata ''recordCount'' of
        None \<Rightarrow> r
      | Some (JNum n) \<Rightarrow> if n < 0 then push (''Invalid recordCount: '' @ int_str n) r else r
      | Some v \<Rightarrow> push (''Invalid recordCount: '' @ to_string v) r)"

text \<open>\<open>path.join\<close> of a directory and a string: the string's segments, normalised.\<close>

fun normalize_onto :: "path \<Rightarrow> string list \<Rightarrow> path" where
  "normalize_onto acc [] = acc"
| "normalize_onto acc (s # ss) =
     (if s = [] \<or> s = ''.'' then normalize_onto acc ss
      else if s = ''..'' then normalize_onto (butlast acc) ss
      else normalize_onto (acc @ [s]) ss)"

definition path_join :: "path \<Rightarrow> string \<Rightarrow> path" where
  "path_join base name = normalize_onto base (split_on CHR ''/'' name)"

definition expectedDataFile :: "path \<Rightarrow> json \<Rightarrow> path" where
  "expectedDataFile repoRoot metadata =
     path_join (repoRoot @ [''data'', ''contacts''])
       (template (getprop metadata ''contactId'') @ ''.json'')"

definition check_reference :: "fsnode \<Rightarrow> path \<Rightarrow> json \<Rightarrow> result \<Rightarrow> result" where
  "check_reference root repoRoot metadata r =
     (if truthy (getprop metadata ''submissionId'')
         \<and> \<not> existsSync root (expectedDataFile repoRoot metadata)
      then push (''Referenced data file not found: ''
                 @ path_str (expectedDataFile repoRoot metadata)) r
      else r)"

text \<open>The checks that read the record alone, in the order of the source.\<close>

definition format_checks :: "js_env \<Rightarrow> json \<Rightarrow> result" where
  "format_checks env metadata =
     check_recordCount metadata
       (check_namespace metadata
         (check_version metadata
           (check_gitBranch metadata
             (check_processedAt env metadata
               (check_submissionId metadata
                 (check_required metadata \<lparr>isValid = True, violations = []\<rparr>))))))"

text \<open>Reading a property of \<open>null\<close> throws; any other value has properties.\<close>

definition validateMetadata :: "js_env \<Rightarrow> fsnode \<Rightarrow> path \<Rightarrow> json \<Rightarrow> path \<Rightarrow> error + result" where
  "validateMetadata env root repoRoot metadata filePath =
     (if metadata = JNull
      then Inl (TypeError ''Cannot read properties of null'')
      else Inr (check_reference root repoRoot metadata (format_checks env metadata)))"

text \<open>The \<open>catch\<close> of \<open>validateFile\<close>; \<open>mark\<close> is the mark the script prints.\<close>

definition caught :: "string \<Rightarrow> path \<Rightarrow> error \<Rightarrow> string" where
  "caught mark filePath e =
     (case e of
        SyntaxError m \<Rightarrow> mark @ '' Invalid JSON in '' @ path_str filePath @ '': '' @ m
      | _ \<Rightarrow> mark @ '' Error processing '' @ path_str filePath @ '': '' @ message e)"

definition parse_file :: "js_env \<Rightarrow> fsnode \<Rightarrow> path \<Rightarrow> error + json" where
  "parse_file env root filePath =
     bindE (readFileSync root filePath)
       (\<lambda>content. case JSON_parse env content of Inl m \<Rightarrow> Inl (SyntaxError m) | Inr v \<Rightarrow> Inr v)"

definition validateFile_metadata :: "js_env \<Rightarrow> fsnode \<Rightarrow> path \<Rightarrow> path \<Rightarrow> bool \<times> string list" where
  "validateFile_metadata env root repoRoot filePath =
     (let started = magnifier @ '' Validating metadata '' @ path_str filePath @ ''...''
      in case bindE (parse_file env root filePath)
                (\<lambda>metadata. validateMetadata env root repoRoot metadata filePath) of
           Inl e \<Rightarrow> (False, [started, caught cross_mark filePath e])
         | Inr r \<Rightarrow>
             if \<not> isValid r
             then (False, started
                     # (cross_mark @ '' Metadata validation failed for '' @ path_str filePath @ '':'')
                     # map (\<lambda>violation. ''  - '' @ violation) (violations r))
             else (True, [started,
                     check_mark @ '' Metadata validation passed for '' @ path_str filePath]))"

definition main_metadata :: "js_env \<Rightarrow> fsnode \<Rightarrow> path \<Rightarrow> run" where
  "main_metadata env root repoRoot =
     (case findMetadataFiles root repoRoot [''metadata'', ''submissions''] of
        Inl e \<Rightarrow> crashed
      | Inr metadataFiles \<Rightarrow>
          if length metadataFiles = 0
          then \<lparr>logFile = Some ''No metadata files found to validate\<newline>'', exitCode = 0,
                console = []\<rparr>
          else finish ''Metadata Validation Results'' ''==========================''
                 (length metadataFiles)
                 (foldl (\<lambda>t file. count_file (cross_mark @ '' Invalid metadata: '') file
                                     (validateFile_metadata env root repoRoot file) t)
                    tally0 metadataFiles))"

section \<open>The business rules validator\<close>

text \<open>
  The marks of this script are stored in the source as the bytes below (the marks of the
  other scripts, read in another encoding and saved again).
\<close>

definition br_magnifier :: string where
  "br_magnifier = [CHR 0xEF, CHR 0xA3, CHR 0xBF, CHR 0xC3, CHR 0xBC, CHR 0xC3, CHR 0xAE, CHR 0xC3, CHR 0xA7]"

definition br_cross :: string where
  "br_cross = [CHR 0xE2, CHR 0x80, CHR 0x9A, CHR 0xC3, CHR 0xB9, CHR 0xC3, CHR 0xA5]"

definition br_check :: string where
  "br_check = [CHR 0xE2, CHR 0x80, CHR 0x9A, CHR 0xC3, CHR 0xBA, CHR 0xC3, CHR 0x96]"

definition br_info :: string where
  "br_info = [CHR 0xE2, CHR 0x80, CHR 0x9A, CHR 0xC3, CHR 0x91, CHR 0xCF, CHR 0x80, CHR 0xC3, CHR 0x94,
              CHR 0xE2, CHR 0x88, CHR 0x8F, CHR 0xC3, CHR 0xA8]"

definition blockedEmailDomains :: "string list" where
  "blockedEmailDomains = [''tempmail.com'', ''10minutemail.com'', ''throwaway.email'',
     ''guerrillamail.com'', ''mailinator.com'', ''yopmail.com'']"

definition allowedCountries :: "string list" where
  "allowedCountries = [''US'', ''CA'', ''UK'', ''FR'', ''DE'', ''AU'', ''JP'', ''MA'']"

definition dash_or_space :: rx where
  "dash_or_space = Atom (\<lambda>c. c = CHR ''-'' \<or> is_space c)"

definition phone_US :: rx where
  "phone_US = seqs [Opt (chr CHR ''+''), Opt (chr CHR ''1''), Opt dash_or_space,
     Opt (chr CHR ''(''), rep 3 digit, Opt (chr CHR '')''), Opt dash_or_space,
     rep 3 digit, Opt dash_or_space, rep 4 digit]"

definition phone_UK :: rx where
  "phone_UK = seqs [Opt (chr CHR ''+''), lit ''44'', Opt dash_or_space, rep 4 digit,
     Opt dash_or_space, rep 6 digit]"

definition phone_FR :: rx where
  "phone_FR = seqs [Opt (chr CHR ''+''), lit ''33'', Opt dash_or_space, rep 1 digit,
     Opt dash_or_space, rep 8 digit]"

definition phone_DE :: rx where
  "phone_DE = seqs [Opt (chr CHR ''+''), lit ''49'', Opt dash_or_space, rep 3 digit, Opt digit,
     Opt dash_or_space, rep 7 digit, Opt digit]"

definition phone_MA :: rx where
  "phone_MA = seqs [Opt (chr CHR ''+''), lit ''212'', rep 9 digit]"

text \<open>
  \<open>phoneNumberPatterns[country]\<close>: a pattern of the table, \<open>undefined\<close>, or a member that
  every object inherits, which is truthy and has no \<open>test\<close>.
\<close>

datatype pattern_lookup = Pattern rx | Inherited | NoPattern

definition inherited_names :: "string list" where
  "inherited_names = [''constructor'', ''toString'', ''valueOf'', ''hasOwnProperty'',
     ''isPrototypeOf'', ''propertyIsEnumerable'', ''toLocaleString'', ''__proto__'',
     ''__defineGetter__'', ''__defineSetter__'', ''__lookupGetter__'', ''__lookupSetter__'']"

definition phoneNumberPatterns :: "string \<Rightarrow> pattern_lookup" where
  "phoneNumberPatterns country =
     (if country = ''US'' \<or> country = ''CA'' then Pattern phone_US
      else if country = ''UK'' then Pattern phone_UK
      else if country = ''FR'' then Pattern phone_FR
      else if country = ''DE'' then Pattern phone_DE
      else if country = ''MA'' then Pattern phone_MA
      else if country \<in> set inherited_names then Inherited
      else NoPattern)"

text \<open>\<open>s.split("@")[1]?.toLowerCase()\<close>\<close>

definition email_domain :: "string \<Rightarrow> string option" where
  "email_domain s = (case split_on CHR ''@'' s of a # b # rest \<Rightarrow> Some (toLowerCase b) | _ \<Rightarrow> None)"

definition rule1 :: "json \<Rightarrow> result \<Rightarrow> error + result" where
  "rule1 contact r =
     (let v = getprop contact ''emailAddress''
      in if truthy v
         then (case v of
                 Some (JStr s) \<Rightarrow>
                   (case email_domain s of
                      Some domain \<Rightarrow>
                        if domain \<in> set blockedEmailDomains
                        then Inr (push (''Blocked email domain: '' @ domain) r) else Inr r
                    | None \<Rightarrow> Inr r)
               | _ \<Rightarrow> Inl (TypeError ''contact.emailAddress.split is not a function''))
         else Inr r)"

definition rule2 :: "json \<Rightarrow> result \<Rightarrow> error + result" where
  "rule2 contact r =
     (let phoneNumber = getprop contact ''phoneNumber''; country = getprop contact ''country''
      in if truthy phoneNumber \<and> truthy country
         then (case phoneNumberPatterns (template country) of
                 NoPattern \<Rightarrow> Inr r
               | Inherited \<Rightarrow> Inl (TypeError ''pattern.test is not a function'')
               | Pattern p \<Rightarrow>
                   if \<not> rx_full p (template phoneNumber)
                   then Inr (push (''Invalid phone format for '' @ template country @ '': ''
                                   @ template phoneNumber) r)
                   else Inr r)
         else Inr r)"

definition rule3 :: "json \<Rightarrow> result \<Rightarrow> result" where
  "rule3 contact r =
     (if truthy (getprop contact ''jobTitle'') \<and> \<not> truthy (getprop contact ''company'')
      then push ''Job title requires company name for business contacts'' r else r)"

definition rule4 :: "json \<Rightarrow> result \<Rightarrow> result" where
  "rule4 contact r =
     (if getprop contact ''country'' = Some (JStr ''US'') \<and> truthy (getprop contact ''city'')
         \<and> \<not> truthy (getprop contact ''stateProvince'')
      then push ''US contacts with city must specify state/province'' r else r)"

definition rule5 :: "json \<Rightarrow> result \<Rightarrow> result" where
  "rule5 contact r =
     (let country = getprop contact ''country''
      in if truthy country \<and> country \<notin> set (map (\<lambda>c. Some (JStr c)) allowedCountries)
         then push (''Country not in allowed list: '' @ template country) r else r)"

text \<open>
  \<open>contact.emailAddress?.includes("test")\<close>: \<open>undefined\<close> for a missing or \<open>null\<close>
  address; a number or a boolean has no \<open>includes\<close>.
\<close>

definition email_includes_test :: "json option \<Rightarrow> error + bool" where
  "email_includes_test v =
     (case v of
        None \<Rightarrow> Inr False
      | Some JNull \<Rightarrow> Inr False
      | Some (JStr s) \<Rightarrow> Inr (str_includes s ''test'')
      | Some (JArr xs) \<Rightarrow> Inr (JStr ''test'' \<in> set xs)
      | Some x \<Rightarrow> Inl (TypeError ''contact.emailAddress?.includes is not a function''))"

text \<open>The number of parts of \<open>s.trim().split(/\<bsol>s+/)\<close>.\<close>

fun count_tokens :: "bool \<Rightarrow> string \<Rightarrow> nat" where
  "count_tokens prev_space [] = 0"
| "count_tokens prev_space (c # cs) =
     (if is_space c then count_tokens True cs
      else (if prev_space then 1 else 0) + count_tokens False cs)"

definition nameParts_length :: "string \<Rightarrow> nat" where
  "nameParts_length fullName = (if trim fullName = [] then 1 else count_tokens True (trim fullName))"

definition rule6 :: "json \<Rightarrow> result \<Rightarrow> error + result" where
  "rule6 contact r =
     (let v = getprop contact ''fullName''
      in if truthy v
         then (case v of
                 Some (JStr fullName) \<Rightarrow>
                   bindE (if str_includes (toLowerCase fullName) ''test''
                          then bindE (email_includes_test (getprop contact ''emailAddress''))
                                 (\<lambda>b. Inr (\<not> b))
                          else Inr False)
                     (\<lambda>suspicious.
                        let r1 = (if suspicious
                                  then push (''Potential test data detected (name contains ''
                                             @ [CHR 0x22] @ ''test'' @ [CHR 0x22]
                                             @ '' but email does not)'') r
                                  else r)
                        in Inr (if nameParts_length fullName < 2
                                then push ''Full name should include both first and last name'' r1
                                else r1))
               | _ \<Rightarrow> Inl (TypeError ''contact.fullName.toLowerCase is not a function''))
         else Inr r)"

text \<open>Rule 7 adds no violation; it prints a line for a personal mail domain.\<close>

definition rule7 :: "json \<Rightarrow> error + string list" where
  "rule7 contact =
     (let email = getprop contact ''emailAddress''; company = getprop contact ''company''
      in if truthy email \<and> truthy company
         then (case company of
                 Some (JStr c) \<Rightarrow>
                   if (case email of Some (JStr s) \<Rightarrow> email_domain s | _ \<Rightarrow> None)
                        \<in> set (map Some [''gmail.com'', ''yahoo.com'', ''hotmail.com'', ''outlook.com''])
                   then Inr [br_info @ ''  Personal email domain used for business contact: ''
                             @ template email]
                   else Inr []
               | _ \<Rightarrow> Inl (TypeError ''contact.company.toLowerCase is not a function''))
         else Inr [])"

definition validTags :: "string list" where
  "validTags = [''customer'', ''prospect'', ''partner'', ''vendor'', ''employee'', ''consultant'']"

fun invalidTags :: "json list \<Rightarrow> error + string list" where
  "invalidTags [] = Inr []"
| "invalidTags (JStr tag # tags) =
     bindE (invalidTags tags)
       (\<lambda>rest. Inr (if toLowerCase tag \<notin> set validTags \<and> length tag > 20 then tag # rest else rest))"
| "invalidTags (tag # tags) = Inl (TypeError ''tag.toLowerCase is not a function'')"

definition rule8 :: "json \<Rightarrow> result \<Rightarrow> error + result" where
  "rule8 contact r =
     (case getprop contact ''tags'' of
        Some (JArr tags) \<Rightarrow>
          bindE (invalidTags tags)
            (\<lambda>bad. Inr (if length bad > 0
                         then push (''Invalid or overly long tags: '' @ join '', '' bad) r else r))
      | _ \<Rightarrow> Inr r)"

definition space_or_dash :: rx where
  "space_or_dash = Atom (\<lambda>c. is_space c \<or> c = CHR ''-'')"

definition sensitive :: "string \<Rightarrow> bool" where
  "sensitive notes =
     (rx_search_word (seqs [rep 3 digit, chr CHR ''-'', rep 2 digit, chr CHR ''-'', rep 4 digit])
        False notes
      \<or> rx_search_word (seqs [rep 4 digit, Opt space_or_dash, rep 4 digit, Opt space_or_dash,
                              rep 4 digit, Opt space_or_dash, rep 4 digit]) False notes
      \<or> rx_search (lit_i ''password'') notes
      \<or> rx_search (lit_i ''ssn'') notes
      \<or> rx_search (lit_i ''social security'') notes)"

definition rule9 :: "json \<Rightarrow> result \<Rightarrow> result" where
  "rule9 contact r =
     (let notes = getprop contact ''notes''
      in if truthy notes \<and> sensitive (template notes)
         then push ''Notes field contains potentially sensitive information'' r else r)"

text \<open>
  The directory \<open>validation-cache\<close> of the working directory: \<open>None\<close> when it does not
  exist, else the marker files it holds, each with its content.
\<close>

type_synonym cache = "(string \<times> string) list option"

definition cache_exists :: "cache \<Rightarrow> string \<Rightarrow> bool" where
  "cache_exists c name = (case c of None \<Rightarrow> False | Some fs \<Rightarrow> map_of fs name \<noteq> None)"

definition mkdirSync :: "cache \<Rightarrow> cache" where
  "mkdirSync c = (case c of None \<Rightarrow> Some [] | Some fs \<Rightarrow> Some fs)"

definition writeFileSync :: "cache \<Rightarrow> string \<Rightarrow> string \<Rightarrow> cache" where
  "writeFileSync c name content = (case c of None \<Rightarrow> None | Some fs \<Rightarrow> Some ((name, content) # fs))"

definition cleanup :: "cache \<Rightarrow> cache" where
  "cleanup c = (if c \<noteq> None then None else c)"

definition cache_key :: "string \<Rightarrow> string" where
  "cache_key email =
     map (\<lambda>c. if is_lower c \<or> is_upper c \<or> is_digit c then c else CHR ''_'') email"

definition emailFile :: "string \<Rightarrow> string" where
  "emailFile email = cache_key email @ ''.flag''"

definition rule10 :: "cache \<Rightarrow> json \<Rightarrow> path \<Rightarrow> result \<Rightarrow> result \<times> cache" where
  "rule10 c contact filePath r =
     (let v = getprop contact ''emailAddress''
      in if truthy v
         then (if cache_exists c (emailFile (template v))
               then (push (''Duplicate email address detected: '' @ template v) r, c)
               else (r, writeFileSync (mkdirSync c) (emailFile (template v)) (path_str filePath)))
         else (r, c))"

text \<open>
  \<open>validateBusinessRules\<close> gives what it returned or threw, what it printed, and the
  cache it left.
\<close>

definition rules_1_to_6 :: "json \<Rightarrow> error + result" where
  "rules_1_to_6 contact =
     bindE (rule1 contact \<lparr>isValid = True, violations = []\<rparr>) (\<lambda>r1.
     bindE (rule2 contact r1) (\<lambda>r2.
     rule6 contact (rule5 contact (rule4 contact (rule3 contact r2)))))"

definition validateBusinessRules ::
    "cache \<Rightarrow> json \<Rightarrow> path \<Rightarrow> (error + result) \<times> string list \<times> cache" where
  "validateBusinessRules c contact filePath =
     (if contact = JNull then (Inl (TypeError ''Cannot read properties of null''), [], c)
      else case rules_1_to_6 contact of
        Inl e \<Rightarrow> (Inl e, [], c)
      | Inr r6 \<Rightarrow>
          (case rule7 contact of
             Inl e \<Rightarrow> (Inl e, [], c)
           | Inr info \<Rightarrow>
               (case rule8 contact r6 of
                  Inl e \<Rightarrow> (Inl e, info, c)
                | Inr r8 \<Rightarrow>
                    (case rule10 c contact filePath (rule9 contact r8) of
                       (r10, c') \<Rightarrow> (Inr r10, info, c')))))"

definition validateFile_business ::
    "js_env \<Rightarrow> fsnode \<Rightarrow> cache \<Rightarrow> path \<Rightarrow> (bool \<times> string list) \<times> cache" where
  "validateFile_business env root c filePath =
     (let started = br_magnifier @ '' Checking business rules for '' @ path_str filePath @ ''...''
      in case parse_file env root filePath of
           Inl e \<Rightarrow> ((False, [started, caught br_cross filePath e]), c)
         | Inr contact \<Rightarrow>
             (case validateBusinessRules c contact filePath of
                (Inl e, info, c') \<Rightarrow> ((False, started # info @ [caught br_cross filePath e]), c')
              | (Inr r, info, c') \<Rightarrow>
                  if \<not> isValid r
                  then ((False, started # info
                          @ (br_cross @ '' Business rule violations in '' @ path_str filePath @ '':'')
                          # map (\<lambda>violation. ''  - '' @ violation) (violations r)), c')
                  else ((True, started # info
                          @ [br_check @ '' Business rules validation passed for ''
                             @ path_str filePath]), c')))"

text \<open>The loop of \<open>main\<close>, which carries the cache from one file to the next.\<close>

fun business_loop ::
    "js_env \<Rightarrow> fsnode \<Rightarrow> path list \<Rightarrow> tally \<times> cache \<Rightarrow> tally \<times> cache" where
  "business_loop env root [] tc = tc"
| "business_loop env root (file # files) (t, c) =
     (case validateFile_business env root c file of
        (res, c') \<Rightarrow>
          business_loop env root files (count_file (br_cross @ '' Rule violation: '') file res t, c'))"

text \<open>What \<open>validateFile\<close> returned for each file of that loop, in its order.\<close>

fun business_results :: "js_env \<Rightarrow> fsnode \<Rightarrow> path list \<Rightarrow> cache \<Rightarrow> bool list" where
  "business_results env root [] c = []"
| "business_results env root (file # files) c =
     (case validateFile_business env root c file of
        (res, c') \<Rightarrow> fst res # business_results env root files c')"

definition main_business :: "js_env \<Rightarrow> fsnode \<Rightarrow> path \<Rightarrow> cache \<Rightarrow> run \<times> cache" where
  "main_business env root repoRoot c =
     (case findDataFiles root repoRoot [''data'', ''contacts''] of
        Inl e \<Rightarrow> (crashed, cleanup c)
      | Inr dataFiles \<Rightarrow>
          if length dataFiles = 0
          then (\<lparr>logFile = Some ''No contact data files found to validate\<newline>'', exitCode = 0,
                 console = []\<rparr>, cleanup c)
          else (case business_loop env root dataFiles (tally0, cleanup c) of
                  (t, c') \<Rightarrow>
                    (finish ''Business Rules Validation Results'' ''===============================''
                       (length dataFiles) t, cleanup c')))"



section \<open>The schema validator\<close>

text \<open>
  \<open>cdmContactSchema.validate(data, {abortEarly: false, allowUnknown: false})\<close>, as the
  schema library documents its rules: every key of the schema is checked and all errors
  are collected, an \<open>optional\<close> key may be missing, \<open>allow(null, "")\<close> accepts these two
  values before any other rule, a string rule rejects a value that is not a string and the
  empty string, and a key that the schema does not name is an error. A missing key with a
  \<open>default\<close> gets it. The default of \<open>contactId\<close> is the function \<open>() => uuidv4()\<close>;
  the script neither imports nor defines \<open>uuidv4\<close>, so calling it throws a
  \<open>ReferenceError\<close>, which the library reports as an error of that key. An error is
  the pair of its path and its message.
\<close>

type_synonym detail = "string \<times> string"

definition quoted :: "string \<Rightarrow> string" where
  "quoted label = [CHR 0x22] @ label @ [CHR 0x22]"

definition string_base :: "string \<Rightarrow> bool \<Rightarrow> (string \<Rightarrow> string list) \<Rightarrow> json \<Rightarrow> detail list" where
  "string_base label allow_null_empty rules v =
     (if allow_null_empty \<and> (v = JNull \<or> v = JStr [])
      then []
      else (case v of
              JStr s \<Rightarrow>
                if s = [] then [(label, quoted label @ '' is not allowed to be empty'')]
                else map (\<lambda>m. (label, quoted label @ m)) (rules s)
            | _ \<Rightarrow> [(label, quoted label @ '' must be a string'')]))"

definition max_rule :: "nat \<Rightarrow> string \<Rightarrow> string list" where
  "max_rule n s =
     (if length s > n
      then ['' length must be less than or equal to '' @ nat_str n @ '' characters long'']
      else [])"

definition min_rule :: "nat \<Rightarrow> string \<Rightarrow> string list" where
  "min_rule n s =
     (if length s < n
      then ['' length must be at least '' @ nat_str n @ '' characters long'']
      else [])"

definition email_rule :: "js_env \<Rightarrow> string \<Rightarrow> string list" where
  "email_rule env s = (if Joi_email env s then [] else ['' must be a valid email''])"

definition phonePattern :: rx where
  "phonePattern =
     Seq (Opt (chr CHR ''+''))
       (plus (Atom (\<lambda>c. is_digit c \<or> is_space c \<or> c = CHR ''-'' \<or> c = CHR ''('' \<or> c = CHR '')'')))"

definition pattern_rule :: "string \<Rightarrow> string list" where
  "pattern_rule s =
     (if rx_full phonePattern s then []
      else ['' with value '' @ quoted s @ '' fails to match the required pattern''])"

text \<open>An optional key: nothing to check when it is missing.\<close>

definition optional :: "(json \<Rightarrow> detail list) \<Rightarrow> json option \<Rightarrow> detail list" where
  "optional check v = (case v of None \<Rightarrow> [] | Some x \<Rightarrow> check x)"

definition required :: "string \<Rightarrow> (json \<Rightarrow> detail list) \<Rightarrow> json option \<Rightarrow> detail list" where
  "required label check v =
     (case v of None \<Rightarrow> [(label, quoted label @ '' is required'')] | Some x \<Rightarrow> check x)"

definition contactId_key :: "json option \<Rightarrow> detail list" where
  "contactId_key v =
     (case v of
        None \<Rightarrow> [(''contactId'', quoted ''contactId'' @ '' threw an error when running default method'')]
      | Some x \<Rightarrow> string_base ''contactId'' False (\<lambda>s. []) x)"

definition preferredContactMethod_key :: "json \<Rightarrow> detail list" where
  "preferredContactMethod_key v =
     (if v \<in> set [JStr ''email'', JStr ''phone'', JStr ''mail''] then []
      else (''preferredContactMethod'',
            quoted ''preferredContactMethod'' @ '' must be one of [email, phone, mail]'')
           # string_base ''preferredContactMethod'' False (\<lambda>s. []) v)"

definition isActive_key :: "json \<Rightarrow> detail list" where
  "isActive_key v =
     (case v of
        JBool b \<Rightarrow> []
      | JStr s \<Rightarrow> if toLowerCase s = ''true'' \<or> toLowerCase s = ''false'' then []
                  else [(''isActive'', quoted ''isActive'' @ '' must be a boolean'')]
      | _ \<Rightarrow> [(''isActive'', quoted ''isActive'' @ '' must be a boolean'')])"

text \<open>A string that holds the text of a JSON object is read as that object.\<close>

definition object_coerce :: "js_env \<Rightarrow> json \<Rightarrow> json" where
  "object_coerce env v =
     (case v of
        JStr s \<Rightarrow>
          (case dropWhile is_space s of
             c # cs \<Rightarrow>
               if c = CHR ''{''
               then (case JSON_parse env s of Inr (JObj fs) \<Rightarrow> JObj fs | _ \<Rightarrow> v)
               else v
           | [] \<Rightarrow> v)
      | _ \<Rightarrow> v)"

definition customFields_key :: "js_env \<Rightarrow> json \<Rightarrow> detail list" where
  "customFields_key env v =
     (case object_coerce env v of
        JNull \<Rightarrow> []
      | JObj fs \<Rightarrow> []
      | _ \<Rightarrow> [(''customFields'', quoted ''customFields'' @ '' must be of type object'')])"

text \<open>
  \<open>tags\<close> is an alternative of three schemas, the last of which is \<open>Joi.allow(null)\<close>,
  that is \<open>Joi.any().allow(null)\<close>: it accepts every value, so the key has no error.
\<close>

definition tags_key :: "json \<Rightarrow> detail list" where
  "tags_key v = []"

definition schema_keys :: "string list" where
  "schema_keys = [''contactId'', ''fullName'', ''emailAddress'', ''phoneNumber'', ''company'',
     ''addressLine1'', ''addressLine2'', ''city'', ''stateProvince'', ''postalCode'', ''country'',
     ''jobTitle'', ''department'', ''preferredContactMethod'', ''isActive'', ''notes'', ''tags'',
     ''customFields'', ''createdOn'', ''modifiedOn'', ''createdBy'', ''modifiedBy'']"

definition key_errors :: "js_env \<Rightarrow> (string \<Rightarrow> json option) \<Rightarrow> detail list" where
  "key_errors env get =
     contactId_key (get ''contactId'')
     @ required ''fullName''
         (string_base ''fullName'' False (\<lambda>s. min_rule 1 s @ max_rule 255 s)) (get ''fullName'')
     @ required ''emailAddress''
         (string_base ''emailAddress'' False (email_rule env)) (get ''emailAddress'')
     @ optional (string_base ''phoneNumber'' True pattern_rule) (get ''phoneNumber'')
     @ optional (string_base ''company'' True (max_rule 255)) (get ''company'')
     @ optional (string_base ''addressLine1'' True (max_rule 255)) (get ''addressLine1'')
     @ optional (string_base ''addressLine2'' True (max_rule 255)) (get ''addressLine2'')
     @ optional (string_base ''city'' True (max_rule 100)) (get ''city'')
     @ optional (string_base ''stateProvince'' True (max_rule 100)) (get ''stateProvince'')
     @ optional (string_base ''postalCode'' True (max_rule 20)) (get ''postalCode'')
     @ optional (string_base ''country'' True (max_rule 100)) (get ''country'')
     @ optional (string_base ''jobTitle'' True (max_rule 255)) (get ''jobTitle'')
     @ optional (string_base ''department'' True (max_rule 255)) (get ''department'')
     @ optional preferredContactMethod_key (get ''preferredContactMethod'')
     @ optional isActive_key (get ''isActive'')
     @ optional (string_base ''notes'' True (max_rule 1000)) (get ''notes'')
     @ optional tags_key (get ''tags'')
     @ optional (customFields_key env) (get ''customFields'')
     @ optional (string_base ''createdOn'' True (max_rule 255)) (get ''createdOn'')
     @ optional (string_base ''modifiedOn'' True (max_rule 255)) (get ''modifiedOn'')
     @ optional (string_base ''createdBy'' False (\<lambda>s. [])) (get ''createdBy'')
     @ optional (string_base ''modifiedBy'' False (\<lambda>s. [])) (get ''modifiedBy'')"

definition unknown_errors :: "(string \<times> json) list \<Rightarrow> detail list" where
  "unknown_errors fs =
     map (\<lambda>k. (k, quoted k @ '' is not allowed''))
       (filter (\<lambda>k. k \<notin> set schema_keys) (map fst fs))"

definition defaults :: "(string \<times> json) list" where
  "defaults = [(''preferredContactMethod'', JStr ''email''), (''isActive'', JBool True),
     (''createdBy'', JStr ''system''), (''modifiedBy'', JStr ''system'')]"

text \<open>
  \<open>{error, value}\<close>: the errors, or the record with the defaults of its missing keys
  (the conversions of \<open>isActive\<close>, \<open>tags\<close> and \<open>customFields\<close>, which nothing reads
  afterwards, are left as they came).
\<close>

definition schema_validate :: "js_env \<Rightarrow> json \<Rightarrow> detail list + json" where
  "schema_validate env data =
     (case object_coerce env data of
        JObj fs \<Rightarrow>
          (let errors = key_errors env (map_of fs) @ unknown_errors fs
           in if errors = []
              then Inr (JObj (fs @ filter (\<lambda>d. map_of fs (fst d) = None) defaults))
              else Inl errors)
      | _ \<Rightarrow> Inl [([], quoted ''value'' @ '' must be of type object'')])"

definition hex :: rx where
  "hex = Atom (\<lambda>c. is_digit c \<or> lower_char c \<in> set ''abcdef'')"

definition uuidRegex :: rx where
  "uuidRegex = seqs [rep 8 hex, chr CHR ''-'', rep 4 hex, chr CHR ''-'',
     Atom (\<lambda>c. c \<in> set ''12345''), rep 3 hex, chr CHR ''-'',
     Atom (\<lambda>c. lower_char c \<in> set ''89ab''), rep 3 hex, chr CHR ''-'', rep 12 hex]"

definition isValidUUID :: "json option \<Rightarrow> bool" where
  "isValidUUID uuid = rx_full uuidRegex (template uuid)"

definition isValidISODate :: "js_env \<Rightarrow> json \<Rightarrow> bool" where
  "isValidISODate env dateString =
     (case toISOString (new_Date env dateString) of
        Inl e \<Rightarrow> False
      | Inr isoString \<Rightarrow> JStr isoString = dateString)"

text \<open>
  \<open>validateCDMCompliance\<close> returns \<open>isValid\<close>; the model adds the lines it prints. It runs
  on a validated record, whose \<open>emailAddress\<close> is a string; on any other truthy value
  \<open>toLowerCase\<close> would throw.
\<close>

definition validateCDMCompliance :: "js_env \<Rightarrow> json \<Rightarrow> error + bool \<times> string list" where
  "validateCDMCompliance env contact =
     (let contactId = getprop contact ''contactId'';
          emailAddress = getprop contact ''emailAddress'';
          createdOn = getprop contact ''createdOn'';
          modifiedOn = getprop contact ''modifiedOn'';
          e1 = (if truthy contactId \<and> \<not> isValidUUID contactId
                then [cross_mark @ '' CDM Compliance: contactId must be valid UUID format''] else [])
      in bindE (if truthy emailAddress
                then (case emailAddress of
                        Some (JStr s) \<Rightarrow>
                          Inr (if s \<noteq> toLowerCase s
                               then [cross_mark @ '' CDM Compliance: emailAddress must be lowercase'']
                               else [])
                      | _ \<Rightarrow> Inl (TypeError ''contact.emailAddress.toLowerCase is not a function''))
                else Inr [])
           (\<lambda>e2.
              let e3 = (if truthy createdOn \<and> \<not> isValidISODate env (the createdOn)
                        then [cross_mark @ '' CDM Compliance: createdOn must be valid ISO date'']
                        else []);
                  e4 = (if truthy modifiedOn \<and> \<not> isValidISODate env (the modifiedOn)
                        then [cross_mark @ '' CDM Compliance: modifiedOn must be valid ISO date'']
                        else []);
                  e5 = (if truthy createdOn \<and> truthy modifiedOn
                        then (case (new_Date env (the createdOn), new_Date env (the modifiedOn)) of
                                (Some created, Some modified) \<Rightarrow>
                                  if modified < created
                                  then [cross_mark @ '' CDM Compliance: modifiedOn cannot be before createdOn'']
                                  else []
                              | _ \<Rightarrow> [])
                        else [])
              in Inr (e1 @ e2 @ e3 @ e4 @ e5 = [], e1 @ e2 @ e3 @ e4 @ e5)))"

definition validateFile_schema :: "js_env \<Rightarrow> fsnode \<Rightarrow> path \<Rightarrow> bool \<times> string list" where
  "validateFile_schema env root filePath =
     (let started = magnifier @ '' Validating '' @ path_str filePath @ ''...''
      in case parse_file env root filePath of
           Inl e \<Rightarrow> (False, [started, caught cross_mark filePath e])
         | Inr data \<Rightarrow>
             (case schema_validate env data of
                Inl errors \<Rightarrow>
                  (False, started
                     # (cross_mark @ '' CDM schema validation failed for '' @ path_str filePath @ '':'')
                     # map (\<lambda>detail. ''  - '' @ fst detail @ '': '' @ snd detail) errors)
              | Inr val \<Rightarrow>
                  (case validateCDMCompliance env val of
                     Inl e \<Rightarrow> (False, [started, caught cross_mark filePath e])
                   | Inr (ok, lines) \<Rightarrow>
                       if \<not> ok then (False, started # lines)
                       else (True, started # lines
                               @ [check_mark @ '' CDM schema validation passed for ''
                                  @ path_str filePath]))))"

definition main_schema :: "js_env \<Rightarrow> fsnode \<Rightarrow> path \<Rightarrow> run" where
  "main_schema env root repoRoot =
     (case findDataFiles root repoRoot [''data'', ''contacts''] of
        Inl e \<Rightarrow> crashed
      | Inr dataFiles \<Rightarrow>
          if length dataFiles = 0
          then \<lparr>logFile = Some ''No contact data files found to validate\<newline>'', exitCode = 0,
                console = []\<rparr>
          else finish ''CDM Schema Validation Results'' ''============================''
                 (length dataFiles)
                 (foldl (\<lambda>t file. count_file (cross_mark @ '' Invalid: '') file
                                     (validateFile_schema env root file) t)
                    tally0 dataFiles))"

section \<open>Concrete inputs\<close>


definition md_invalid :: json where
  "md_invalid = JObj [(''submissionId'', JStr ''invalid-format''),
     (''processedAt'', JStr ''invalid-date''), (''gitBranch'', JStr ''invalid branch name'')]"

definition env0 :: js_env where
  "env0 = \<lparr>Date_parse = (\<lambda>s. if s = ''2024-01-01T12:00:00.000Z'' then Some 1704110400000 else None),
            Date_now = 1767225600000,
            JSON_parse = (\<lambda>s. if s = ''{}'' then Inr (JObj [])
                              else Inl ''Unexpected end of JSON input''),
            Joi_email = (\<lambda>s. CHR ''@'' \<in> set s)\<rparr>"

definition fs_contacts :: fsnode where
  "fs_contacts = Dir [(''repo'', Dir [(''data'', Dir [(''contacts'',
      Dir [(''valid-contact.json'', File ''{}'')])])])]"

definition fs_nested :: fsnode where
  "fs_nested = Dir [(''repo'', Dir [(''metadata'', Dir [(''submissions'',
      Dir [(''2024'', Dir [(''a.json'', File ''{}'')]), (''b.json'', File ''{}'')])])])]"


text \<open>
  Each data directory holds one empty subdirectory, and the repository holds, under a
  directory named as its own root is, a second copy of the tree where that subdirectory has
  a file.
\<close>

definition fs_doubled :: fsnode where
  "fs_doubled = Dir [(''repo'', Dir [
      (''data'', Dir [(''contacts'', Dir [(''2024'', Dir [])])]),
      (''metadata'', Dir [(''submissions'', Dir [(''2024'', Dir [])])]),
      (''repo'', Dir [
         (''data'', Dir [(''contacts'', Dir [(''2024'', Dir [(''x.json'', File ''{'')])])]),
         (''metadata'', Dir [(''submissions'', Dir [(''2024'', Dir [(''x.json'', File ''{'')])])])])])]"


text \<open>
  Contact files for the examples, each with the value its text parses to, and a runtime
  that reads them.
\<close>

definition field :: "string \<Rightarrow> string \<Rightarrow> string" where
  "field k v = quoted k @ '':'' @ quoted v"

definition upper_email_text :: string where
  "upper_email_text = ''{'' @ field ''contactId'' ''123e4567-e89b-12d3-a456-426614174000'' @ '',''
     @ field ''fullName'' ''John Doe'' @ '','' @ field ''emailAddress'' ''John.Doe@example.com'' @ ''}''"

definition upper_email :: json where
  "upper_email = JObj [(''contactId'', JStr ''123e4567-e89b-12d3-a456-426614174000''),
     (''fullName'', JStr ''John Doe''), (''emailAddress'', JStr ''John.Doe@example.com'')]"

definition upper_email_no_name_text :: string where
  "upper_email_no_name_text = ''{'' @ field ''contactId'' ''123e4567-e89b-12d3-a456-426614174000''
     @ '','' @ field ''emailAddress'' ''John.Doe@example.com'' @ ''}''"

definition upper_email_no_name :: json where
  "upper_email_no_name = JObj [(''contactId'', JStr ''123e4567-e89b-12d3-a456-426614174000''),
     (''emailAddress'', JStr ''John.Doe@example.com'')]"

definition no_contactId_text :: string where
  "no_contactId_text = ''{'' @ field ''fullName'' ''John Doe'' @ '',''
     @ field ''emailAddress'' ''john.doe@example.com'' @ ''}''"

definition no_contactId :: json where
  "no_contactId = JObj [(''fullName'', JStr ''John Doe''),
     (''emailAddress'', JStr ''john.doe@example.com'')]"

definition example_texts :: "(string \<times> json) list" where
  "example_texts = [(upper_email_text, upper_email),
     (upper_email_no_name_text, upper_email_no_name),
     (no_contactId_text, no_contactId)]"

definition env1 :: js_env where
  "env1 = env0\<lparr>JSON_parse := (\<lambda>s. case map_of example_texts s of
                                     Some v \<Rightarrow> Inr v
                                   | None \<Rightarrow> Inl ''Unexpected end of JSON input'')\<rparr>"

definition fs_schema :: fsnode where
  "fs_schema = Dir [(''repo'', Dir [(''data'', Dir [(''contacts'', Dir [
      (''upper.json'', File upper_email_text),
      (''upper-no-name.json'', File upper_email_no_name_text),
      (''no-id.json'', File no_contactId_text)])])])]"













section \<open>The number of JSON files under a directory\<close>

text \<open>
  The count that the specification describes: the \<open>.json\<close> files at any depth under a
  directory (none when the directory does not exist).
\<close>

fun spec_json_count :: "(string \<times> fsnode) list \<Rightarrow> nat" where
  "spec_json_count [] = 0"
| "spec_json_count ((name, File c) # es) =
     (if endsWith name ''.json'' then 1 else 0) + spec_json_count es"
| "spec_json_count ((name, Dir ds) # es) = spec_json_count ds + spec_json_count es"

definition spec_count_dir :: "fsnode \<Rightarrow> path \<Rightarrow> nat" where
  "spec_count_dir root p = (case lookup root p of Some (Dir es) \<Rightarrow> spec_json_count es | _ \<Rightarrow> 0)"

section \<open>Properties of the aggregator\<close>



lemma status_parseValidationOutput:
  "status (parseValidationOutput content) =
     (if str_includes content ''validation checks passed!'' then ''passed''
      else if str_includes content ''validation failed!'' then ''failed''
      else ''unknown'')"
  by (simp add: parseValidationOutput_def Let_def)

lemma readValidationOutput_status:
  assumes "readValidationOutput root repoRoot file = Inr r"
  shows "status r = ''passed'' \<longleftrightarrow>
           (\<exists>content. lookup root (repoRoot @ [file]) = Some (File content)
              \<and> str_includes content ''validation checks passed!'')"
proof (cases "lookup root (repoRoot @ [file])")
  case None
  with assms show ?thesis
    by (auto simp: readValidationOutput_def existsSync_def unknown_result_def)
next
  case (Some n)
  with assms show ?thesis
    by (cases n)
       (auto simp: readValidationOutput_def existsSync_def readFileSync_def bindE_def
          status_parseValidationOutput split: if_splits)
qed

lemma generateReport_Inr:
  assumes "generateReport root repoRoot = Inr vr"
  shows "readValidationOutput root repoRoot ''cdm-validation.log'' = Inr (cdmSchema vr)"
    and "readValidationOutput root repoRoot ''business-rules-validation.log'' = Inr (businessRules vr)"
    and "readValidationOutput root repoRoot ''metadata-validation.log'' = Inr (metadataResult vr)"
    and "countFiles root repoRoot = Inr (fileCount vr)"
  using assms by (auto simp: generateReport_def bindE_def split: sum.splits)



text \<open>
  C5, as stated, fails: a JSON file in a subdirectory of the metadata directory is a file
  of the recursive traversal, and \<open>countFiles\<close> does not count it.
\<close>

theorem countFiles_not_recursive_counterexample:
  "countFiles fs_nested [''repo''] = Inr \<lparr>total = 1, contacts = 0, metadataCount = 1\<rparr>
   \<and> spec_count_dir fs_nested [''repo'', ''metadata'', ''submissions''] = 2"
  by code_simp

text \<open>
  C5, amended. \<open>fileCount.metadata\<close> is the number of entries directly in the metadata
  directory whose names end in \<open>.json\<close> (0 when the directory does not exist),
  \<open>fileCount.total\<close> is the sum of the two counts, and the counts are read from the
  directories alone: two file systems that agree on the three paths \<open>countFiles\<close> looks at
  give the same counts, whatever their logs hold.
\<close>

theorem countFiles_counts_entries:
  "(countFiles root repoRoot = Inr fc \<longrightarrow>
      metadataCount fc =
        (case lookup root (repoRoot @ [''metadata'', ''submissions'']) of
           Some (Dir es) \<Rightarrow> length (filter (\<lambda>file. endsWith file ''.json'') (map fst es))
         | _ \<Rightarrow> 0)
      \<and> total fc = contacts fc + metadataCount fc)
   \<and> (lookup root (repoRoot @ repoRoot @ [''data'', ''contacts''])
         = lookup root' (repoRoot @ repoRoot @ [''data'', ''contacts''])
       \<and> lookup root (repoRoot @ [''data'', ''contacts''])
         = lookup root' (repoRoot @ [''data'', ''contacts''])
       \<and> lookup root (repoRoot @ [''metadata'', ''submissions''])
         = lookup root' (repoRoot @ [''metadata'', ''submissions''])
       \<longrightarrow> countFiles root repoRoot = countFiles root' repoRoot)"
proof -
  have counts: "countFiles root repoRoot = Inr fc \<longrightarrow>
      metadataCount fc =
        (case lookup root (repoRoot @ [''metadata'', ''submissions'']) of
           Some (Dir es) \<Rightarrow> length (filter (\<lambda>file. endsWith file ''.json'') (map fst es))
         | _ \<Rightarrow> 0)
      \<and> total fc = contacts fc + metadataCount fc"
    by (auto simp: countFiles_def Let_def bindE_def existsSync_def readdirSync_def json_names_def
          split: sum.splits if_splits option.splits fsnode.splits)
  have frame: "lookup root (repoRoot @ repoRoot @ [''data'', ''contacts''])
         = lookup root' (repoRoot @ repoRoot @ [''data'', ''contacts''])
       \<and> lookup root (repoRoot @ [''data'', ''contacts''])
         = lookup root' (repoRoot @ [''data'', ''contacts''])
       \<and> lookup root (repoRoot @ [''metadata'', ''submissions''])
         = lookup root' (repoRoot @ [''metadata'', ''submissions''])
       \<longrightarrow> countFiles root repoRoot = countFiles root' repoRoot"
    by (simp add: countFiles_def Let_def existsSync_def readdirSync_def)
  from counts frame show ?thesis by blast
qed

theorem countFiles_counts_entries_witness:
  "countFiles fs_nested [''repo''] = Inr \<lparr>total = 1, contacts = 0, metadataCount = 1\<rparr>
   \<and> metadataCount \<lparr>total = 1, contacts = 0, metadataCount = 1\<rparr> = 1
   \<and> total \<lparr>total = 1, contacts = 0, metadataCount = 1\<rparr> = 1"
proof -
  have c: "countFiles fs_nested [''repo''] = Inr \<lparr>total = 1, contacts = 0, metadataCount = 1\<rparr>"
    by code_simp
  have "lookup fs_nested ([''repo''] @ [''metadata'', ''submissions''])
      = Some (Dir [(''2024'', Dir [(''a.json'', File ''{}'')]), (''b.json'', File ''{}'')])"
    by code_simp
  with c countFiles_counts_entries [of fs_nested "[''repo'']" "\<lparr>total = 1, contacts = 0, metadataCount = 1\<rparr>" fs_nested]
  show ?thesis by simp
qed

section \<open>Properties of the metadata validator\<close>

lemma push_simps [simp]:
  "isValid (push v r) = False" "violations (push v r) = violations r @ [v]"
  by (simp_all add: push_def)

lemma toISOString_Some: "\<exists>s. toISOString (Some t) = Inr s \<and> last s = CHR ''Z''"
  by (auto simp: toISOString_def split: prod.splits)

lemma required_md_invalid:
  "check_required md_invalid \<lparr>isValid = True, violations = []\<rparr> =
     \<lparr>isValid = False, violations = [''Missing required metadata field: gitCommitMessage'']\<rparr>"
  by (simp add: check_required_def requiredFields_def md_invalid_def push_def)

lemma submissionId_md_invalid: "\<not> rx_full submissionIdPattern ''invalid-format''"
  by code_simp

lemma gitBranch_md_invalid: "\<not> rx_full branchPattern ''invalid branch name''"
  by code_simp

text \<open>
  Whatever the runtime makes of \<open>'invalid-date'\<close>, the timestamp is reported: an invalid
  date is, and the ISO string of a valid one ends in \<open>Z\<close>.
\<close>

lemma processedAt_md_invalid:
  "\<exists>fut. violations (check_processedAt env md_invalid r)
           = violations r @ [''Invalid processedAt timestamp: invalid-date''] @ fut"
proof (cases "Date_parse env ''invalid-date''")
  case None
  then show ?thesis
    by (simp add: check_processedAt_def md_invalid_def template_def Let_def)
next
  case (Some t)
  obtain s where s: "toISOString (Some t) = Inr s" and z: "last s = CHR ''Z''"
    using toISOString_Some by blast
  from z have "s \<noteq> ''invalid-date''" by auto
  with Some s show ?thesis
    by (simp add: check_processedAt_def md_invalid_def template_def Let_def bindE_def)
qed

text \<open>
  C7. For the record \<open>{submissionId: 'invalid-format', processedAt: 'invalid-date',
  gitBranch: 'invalid branch name'}\<close>, \<open>validateMetadata\<close> returns \<open>isValid\<close> false and at
  least four violations, among them the missing \<open>gitCommitMessage\<close>, the format of
  \<open>submissionId\<close>, the timestamp \<open>processedAt\<close> and the name of the branch; this holds in
  every file system, at every time and for every date parser.
\<close>

theorem invalid_metadata_four_violations:
  "\<exists>r. validateMetadata env root repoRoot md_invalid filePath = Inr r
       \<and> \<not> isValid r
       \<and> 4 \<le> length (violations r)
       \<and> ''Missing required metadata field: gitCommitMessage'' \<in> set (violations r)
       \<and> ''Invalid submissionId format: invalid-format'' \<in> set (violations r)
       \<and> ''Invalid processedAt timestamp: invalid-date'' \<in> set (violations r)
       \<and> ''Git branch does not follow naming convention: invalid branch name''
            \<in> set (violations r)"
proof -
  let ?r2 = "check_submissionId md_invalid
               (check_required md_invalid \<lparr>isValid = True, violations = []\<rparr>)"
  have r2: "violations ?r2 = [''Missing required metadata field: gitCommitMessage'',
      ''Invalid submissionId format: invalid-format'']"
    using submissionId_md_invalid
    by (simp add: required_md_invalid check_submissionId_def Let_def)
       (simp add: md_invalid_def template_def)
  obtain fut where r3: "violations (check_processedAt env md_invalid ?r2)
      = violations ?r2 @ [''Invalid processedAt timestamp: invalid-date''] @ fut"
    using processedAt_md_invalid by blast
  let ?r4 = "check_gitBranch md_invalid (check_processedAt env md_invalid ?r2)"
  have r4: "violations ?r4 = violations ?r2 @ [''Invalid processedAt timestamp: invalid-date'']
      @ fut @ [''Git branch does not follow naming convention: invalid branch name'']"
    and v4: "\<not> isValid ?r4"
    using gitBranch_md_invalid r3
    by (simp_all add: check_gitBranch_def md_invalid_def template_def Let_def)
  have f: "format_checks env md_invalid = ?r4"
    by (simp add: format_checks_def check_recordCount_def check_namespace_def
          check_version_def Let_def)
       (simp add: md_invalid_def)
  show ?thesis
    unfolding validateMetadata_def f
    using r4 v4 r2 by (auto simp: check_reference_def md_invalid_def)
qed

theorem invalid_metadata_four_violations_witness:
  "validateMetadata env0 fs_contacts [''repo''] md_invalid [] =
     Inr \<lparr>isValid = False,
          violations = [''Missing required metadata field: gitCommitMessage'',
            ''Invalid submissionId format: invalid-format'',
            ''Invalid processedAt timestamp: invalid-date'',
            ''Git branch does not follow naming convention: invalid branch name'',
            ''Referenced data file not found: /repo/data/contacts/undefined.json'']\<rparr>
   \<and> (\<exists>r. validateMetadata env0 fs_contacts [''repo''] md_invalid [] = Inr r
          \<and> 4 \<le> length (violations r))"
proof -
  have "validateMetadata env0 fs_contacts [''repo''] md_invalid [] =
     Inr \<lparr>isValid = False,
          violations = [''Missing required metadata field: gitCommitMessage'',
            ''Invalid submissionId format: invalid-format'',
            ''Invalid processedAt timestamp: invalid-date'',
            ''Git branch does not follow naming convention: invalid branch name'',
            ''Referenced data file not found: /repo/data/contacts/undefined.json'']\<rparr>"
    by code_simp
  with invalid_metadata_four_violations [of env0 fs_contacts "[''repo'']" "[]"]
  show ?thesis by blast
qed




section \<open>Properties of the runs\<close>










lemma finish_simps [simp]:
  "logFile (finish title underline n t)
     = Some (write_log title underline n (validCount t) (errorLines t) (allValid t))"
  "exitCode (finish title underline n t) = (if allValid t then 0 else 1)"
  by (simp_all add: finish_def)







text \<open>
  C3 at a failing input. Neither data directory of \<open>fs_doubled\<close> holds a JSON file at any
  depth, yet each validator finds the file of the second tree, whose path is that of the
  subdirectory with the root of the repository in front of it once more, validates it and
  exits with 1.
\<close>

theorem doubled_path_is_searched:
  "spec_count_dir fs_doubled [''repo'', ''data'', ''contacts''] = 0
   \<and> spec_count_dir fs_doubled [''repo'', ''metadata'', ''submissions''] = 0
   \<and> findDataFiles fs_doubled [''repo''] [''data'', ''contacts'']
       = Inr [[''repo'', ''repo'', ''data'', ''contacts'', ''2024'', ''x.json'']]
   \<and> findMetadataFiles fs_doubled [''repo''] [''metadata'', ''submissions'']
       = Inr [[''repo'', ''repo'', ''metadata'', ''submissions'', ''2024'', ''x.json'']]
   \<and> exitCode (main_schema env0 fs_doubled [''repo'']) = 1
   \<and> exitCode (fst (main_business env0 fs_doubled [''repo''] None)) = 1
   \<and> exitCode (main_metadata env0 fs_doubled [''repo'']) = 1
   \<and> logFile (main_schema env0 fs_doubled [''repo''])
       \<noteq> Some ''No contact data files found to validate\<newline>''
   \<and> logFile (fst (main_business env0 fs_doubled [''repo''] None))
       \<noteq> Some ''No contact data files found to validate\<newline>''
   \<and> logFile (main_metadata env0 fs_doubled [''repo''])
       \<noteq> Some ''No metadata files found to validate\<newline>''"
  by code_simp

text \<open>
  What holds of C3: a data directory that does not exist, or that holds neither a
  subdirectory nor an entry whose name ends in \<open>.json\<close>, gives the log of the empty run
  and the exit code 0.
\<close>

lemma findDataFiles_empty:
  assumes "lookup root (repoRoot @ dir) = None
     \<or> (\<exists>items. lookup root (repoRoot @ dir) = Some (Dir items)
          \<and> list_all (\<lambda>item. \<not> isDirectory (snd item) \<and> \<not> endsWith (fst item) ''.json'') items)"
  shows "findDataFiles root repoRoot dir = Inr []"
proof -
  have c: "list_all (\<lambda>item. \<not> isDirectory (snd item) \<and> \<not> endsWith (fst item) ''.json'') items \<Longrightarrow>
      collect (map (\<lambda>item.
              if isDirectory (snd item) then f item
              else if endsWith (fst item) ''.json'' then Inr [g item]
              else Inr []) items) = Inr []" for items f g
    by (induction items) (auto simp: bindE_def)
  from assms show ?thesis
    by (subst findDataFiles.simps) (auto simp: c)
qed

lemma empty_input_is_vacuously_valid:
  assumes "lookup root (repoRoot @ [''data'', ''contacts'']) = None
     \<or> (\<exists>items. lookup root (repoRoot @ [''data'', ''contacts'']) = Some (Dir items)
          \<and> list_all (\<lambda>item. \<not> isDirectory (snd item) \<and> \<not> endsWith (fst item) ''.json'') items)"
  shows "main_schema env root repoRoot =
           \<lparr>logFile = Some ''No contact data files found to validate\<newline>'', exitCode = 0, console = []\<rparr>"
    and "fst (main_business env root repoRoot c) =
           \<lparr>logFile = Some ''No contact data files found to validate\<newline>'', exitCode = 0, console = []\<rparr>"
  using findDataFiles_empty [OF assms]
  by (simp_all add: main_schema_def main_business_def)

lemma empty_metadata_is_vacuously_valid:
  assumes "lookup root (repoRoot @ [''metadata'', ''submissions'']) = None
     \<or> (\<exists>items. lookup root (repoRoot @ [''metadata'', ''submissions'']) = Some (Dir items)
          \<and> list_all (\<lambda>item. \<not> isDirectory (snd item) \<and> \<not> endsWith (fst item) ''.json'') items)"
  shows "main_metadata env root repoRoot =
           \<lparr>logFile = Some ''No metadata files found to validate\<newline>'', exitCode = 0, console = []\<rparr>"
  using findDataFiles_empty [OF assms]
  by (simp add: main_metadata_def findMetadataFiles_def)

section \<open>Properties of the schema validator\<close>



lemma schema_validate_object:
  "schema_validate env (JObj fs) =
     (if key_errors env (map_of fs) @ unknown_errors fs = []
      then Inr (JObj (fs @ filter (\<lambda>d. map_of fs (fst d) = None) defaults))
      else Inl (key_errors env (map_of fs) @ unknown_errors fs))"
  by (simp add: schema_validate_def object_coerce_def Let_def)

lemma key_errors_no_contactId:
  "get ''contactId'' = None \<Longrightarrow>
     key_errors env get =
       (''contactId'', quoted ''contactId'' @ '' threw an error when running default method'')
       # tl (key_errors env get)"
  by (simp add: key_errors_def contactId_key_def)

lemma in_set_mapI: "x \<in> set xs \<Longrightarrow> f x \<in> set (map f xs)"
  by simp

text \<open>
  C8. A contact record without \<open>contactId\<close> never passes: the schema reports the error of
  the default of that key and returns no value, so no identifier is supplied, and
  \<open>validateFile\<close> returns false and prints that error.
\<close>

theorem missing_contactId_is_invalid:
  assumes "parse_file env root filePath = Inr (JObj fs)"
    and "map_of fs ''contactId'' = None"
  shows "\<not> fst (validateFile_schema env root filePath)
     \<and> (\<exists>errors. schema_validate env (JObj fs) = Inl errors
           \<and> (''contactId'', quoted ''contactId'' @ '' threw an error when running default method'')
               \<in> set errors)
     \<and> (''  - contactId: '' @ quoted ''contactId'' @ '' threw an error when running default method'')
         \<in> set (snd (validateFile_schema env root filePath))"
proof -
  let ?e = "(''contactId'', quoted ''contactId'' @ '' threw an error when running default method'')"
  let ?errors = "key_errors env (map_of fs) @ unknown_errors fs"
  have k: "key_errors env (map_of fs) = ?e # tl (key_errors env (map_of fs))"
    using key_errors_no_contactId [of "map_of fs" env] assms(2) by simp
  then have mem: "?e \<in> set ?errors"
    by (metis UnCI list.set_intros(1) set_append)
  then have ne: "?errors \<noteq> []" by auto
  then have s: "schema_validate env (JObj fs) = Inl ?errors"
    by (simp add: schema_validate_object)
  have line: "(''  - contactId: '' @ quoted ''contactId'' @ '' threw an error when running default method'')
      \<in> set (map (\<lambda>detail. ''  - '' @ fst detail @ '': '' @ snd detail) ?errors)"
    using in_set_mapI [OF mem, of "\<lambda>detail. ''  - '' @ fst detail @ '': '' @ snd detail"] by simp
  show ?thesis
    using assms(1) s mem line by (simp add: validateFile_schema_def Let_def)
qed

theorem missing_contactId_is_invalid_witness:
  "validateFile_schema env1 fs_schema [''repo'', ''data'', ''contacts'', ''no-id.json''] =
     (False, [magnifier @ '' Validating /repo/data/contacts/no-id.json...'',
              cross_mark @ '' CDM schema validation failed for /repo/data/contacts/no-id.json:'',
              ''  - contactId: '' @ quoted ''contactId''
                @ '' threw an error when running default method''])
   \<and> \<not> fst (validateFile_schema env1 fs_schema [''repo'', ''data'', ''contacts'', ''no-id.json''])"
proof -
  have p: "parse_file env1 fs_schema [''repo'', ''data'', ''contacts'', ''no-id.json'']
      = Inr (JObj [(''fullName'', JStr ''John Doe''),
                   (''emailAddress'', JStr ''john.doe@example.com'')])"
    by code_simp
  have n: "map_of [(''fullName'', JStr ''John Doe''),
      (''emailAddress'', JStr ''john.doe@example.com'')] ''contactId'' = None"
    by simp
  have v: "validateFile_schema env1 fs_schema [''repo'', ''data'', ''contacts'', ''no-id.json''] =
     (False, [magnifier @ '' Validating /repo/data/contacts/no-id.json...'',
              cross_mark @ '' CDM schema validation failed for /repo/data/contacts/no-id.json:'',
              ''  - contactId: '' @ quoted ''contactId''
                @ '' threw an error when running default method''])"
    by code_simp
  from missing_contactId_is_invalid [OF p n] v show ?thesis by blast
qed






section \<open>Properties of the business rules validator\<close>










lemma length_business_results [simp]: "length (business_results env root files c) = length files"
  by (induction files arbitrary: c) (auto split: prod.splits)













lemma cache_exists_None [simp]: "\<not> cache_exists None n"
  by (simp add: cache_exists_def)



















end
